theory Spec2Isabelle
  imports Complex_Main
begin

section \<open>dSGP4: Newton iteration recovering a TLE from a propagated state\<close>

text \<open>
  A shallow embedding of \<^verbatim>\<open>dsgp4/newton_method.py\<close>: \<^verbatim>\<open>initial_guess\<close>,
  \<^verbatim>\<open>update_TLE\<close> and \<^verbatim>\<open>newton_method\<close>. The collaborators the file calls but does
  not define (the SGP4 propagator and its reverse-mode gradients, the conversion from a
  Cartesian state to elements, the date helpers, the TLE class of the package
  \<^verbatim>\<open>kessler\<close>, the matrix inverse of numpy) are parameters of the model, gathered in
  the record \<open>env\<close>. Every exception is a value of the type \<open>error\<close>.
\<close>

subsection \<open>Python floats\<close>

text \<open>
  A Python float is finite, an infinity or NaN. Finite floats are idealised as reals:
  rounding, overflow to an infinity and the sign of zero are not modelled. The
  infinities and NaN follow IEEE 754: NaN propagates through arithmetic and makes
  every comparison false.
\<close>

datatype pyfloat = Fin real | PosInf | NegInf | NaN

datatype error =
    IndexError
  | ValueError
  | ZeroDivisionError
  | LinAlgError
  | InvalidTLEError
  | PropagationError
  | ConversionError
  | InvalidElementError

text \<open>
  \<open>LinAlgError\<close> is what \<^verbatim>\<open>np.linalg.inv\<close> raises on a singular matrix (the
  specification calls it SingularJacobianError). \<open>InvalidElementError\<close> is named by the
  specification only: no definition below produces it.
\<close>

definition ebind :: "error + 'a \<Rightarrow> ('a \<Rightarrow> error + 'b) \<Rightarrow> error + 'b" where
  "ebind m f = (case m of Inl e \<Rightarrow> Inl e | Inr x \<Rightarrow> f x)"

definition is_finite :: "pyfloat \<Rightarrow> bool" where
  "is_finite x = (case x of Fin _ \<Rightarrow> True | _ \<Rightarrow> False)"

fun fneg :: "pyfloat \<Rightarrow> pyfloat" where
  "fneg (Fin a) = Fin (- a)"
| "fneg PosInf = NegInf"
| "fneg NegInf = PosInf"
| "fneg NaN = NaN"

fun fadd :: "pyfloat \<Rightarrow> pyfloat \<Rightarrow> pyfloat" where
  "fadd (Fin a) (Fin b) = Fin (a + b)"
| "fadd NaN _ = NaN"
| "fadd _ NaN = NaN"
| "fadd PosInf NegInf = NaN"
| "fadd NegInf PosInf = NaN"
| "fadd PosInf _ = PosInf"
| "fadd _ PosInf = PosInf"
| "fadd NegInf _ = NegInf"
| "fadd _ NegInf = NegInf"

definition fsub :: "pyfloat \<Rightarrow> pyfloat \<Rightarrow> pyfloat" where
  "fsub x y = fadd x (fneg y)"

text \<open>The sign of a float as the product of two floats needs it: an infinity times zero is NaN.\<close>

fun fsign :: "pyfloat \<Rightarrow> int" where
  "fsign (Fin a) = (if a < 0 then - 1 else if a = 0 then 0 else 1)"
| "fsign PosInf = 1"
| "fsign NegInf = - 1"
| "fsign NaN = 0"

definition fmul :: "pyfloat \<Rightarrow> pyfloat \<Rightarrow> pyfloat" where
  "fmul x y =
     (case (x, y) of
        (Fin a, Fin b) \<Rightarrow> Fin (a * b)
      | (NaN, _) \<Rightarrow> NaN
      | (_, NaN) \<Rightarrow> NaN
      | _ \<Rightarrow> (if fsign x * fsign y = 0 then NaN
              else if fsign x * fsign y < 0 then NegInf else PosInf))"

text \<open>
  Python's \<^verbatim>\<open>/\<close> on floats raises ZeroDivisionError on a zero divisor, whatever the
  dividend.
\<close>

definition fdiv :: "pyfloat \<Rightarrow> pyfloat \<Rightarrow> error + pyfloat" where
  "fdiv x y =
     (case y of
        Fin b \<Rightarrow> (if b = 0 then Inl ZeroDivisionError else Inr (fmul x (Fin (1 / b))))
      | NaN \<Rightarrow> Inr NaN
      | _ \<Rightarrow> Inr (case x of Fin a \<Rightarrow> Fin 0 | _ \<Rightarrow> NaN))"

fun fsqrt :: "pyfloat \<Rightarrow> pyfloat" where
  "fsqrt (Fin a) = (if 0 \<le> a then Fin (sqrt a) else NaN)"
| "fsqrt PosInf = PosInf"
| "fsqrt NegInf = NaN"
| "fsqrt NaN = NaN"

text \<open>\<open>fless x y\<close> is Python's \<^verbatim>\<open>x < y\<close>; \<^verbatim>\<open>x > y\<close> is \<open>fless y x\<close>.\<close>

fun fless :: "pyfloat \<Rightarrow> pyfloat \<Rightarrow> bool" where
  "fless (Fin a) (Fin b) = (a < b)"
| "fless NaN _ = False"
| "fless _ NaN = False"
| "fless NegInf NegInf = False"
| "fless NegInf _ = True"
| "fless PosInf _ = False"
| "fless _ PosInf = True"
| "fless _ NegInf = False"

definition fle :: "pyfloat \<Rightarrow> pyfloat \<Rightarrow> bool" where
  "fle x y = (fless x y \<or> (x = y \<and> x \<noteq> NaN))"

subsection \<open>The TLE record\<close>

text \<open>
  The dictionary handed to the constructor \<^verbatim>\<open>kessler.tle.TLE\<close>, with the keys that
  \<^verbatim>\<open>update_TLE\<close> and \<^verbatim>\<open>initial_guess\<close> write.
\<close>

record tle_elements =
  mean_motion :: pyfloat
  b_star :: pyfloat
  raan :: pyfloat
  eccentricity :: pyfloat
  argument_of_perigee :: pyfloat
  inclination :: pyfloat
  mean_anomaly :: pyfloat
  mean_motion_first_derivative :: pyfloat
  mean_motion_second_derivative :: pyfloat
  epoch_days :: pyfloat
  epoch_year :: int
  classification :: string
  satellite_catalog_number :: int
  ephemeris_type :: int
  international_designator :: string
  revolution_number_at_epoch :: int
  element_number :: int

text \<open>
  Modelled from the spec: the TLE record of the external package \<^verbatim>\<open>kessler\<close>, whose
  class is not part of the repository. A TLE object exposes as attributes the fields of
  the dictionary it was built from, so a TLE is the record of those fields.
\<close>

type_synonym tle = tle_elements

text \<open>
  Modelled from the spec: the constructor \<^verbatim>\<open>kessler.tle.TLE\<close>. It accepts a field
  dictionary and fails with InvalidTLEError on out-of-range fields; which dictionaries
  are in range is the parameter \<open>valid\<close>.
\<close>

definition TLE :: "(tle_elements \<Rightarrow> bool) \<Rightarrow> tle_elements \<Rightarrow> error + tle" where
  "TLE valid d = (if valid d then Inr d else Inl InvalidTLEError)"

subsection \<open>update_TLE\<close>

text \<open>
  \<^verbatim>\<open>y0[k]\<close> on a tensor with a constant index \<open>k \<ge> 0\<close>: IndexError out of range.
\<close>

definition item :: "pyfloat list \<Rightarrow> nat \<Rightarrow> error + pyfloat" where
  "item y0 k = (if k < length y0 then Inr (y0 ! k) else Inl IndexError)"

definition xpdotp :: real where
  "xpdotp = 1440 / (2 * pi)"

text \<open>
  Lines 92 and 93: \<^verbatim>\<open>no_kozai=float(y0[7])*xpdotp\<close> and
  \<^verbatim>\<open>tle_elements['mean_motion']=no_kozai*np.pi/43200.0\<close>, as a function of
  \<^verbatim>\<open>float(y0[7])\<close>.
\<close>

definition mean_motion_of :: "pyfloat \<Rightarrow> error + pyfloat" where
  "mean_motion_of y7 =
     (let no_kozai = fmul y7 (Fin xpdotp)
      in fdiv (fmul no_kozai (Fin pi)) (Fin 43200))"

text \<open>
  The reads of the source in its order: \<^verbatim>\<open>y0[7]\<close>, \<^verbatim>\<open>y0[0]\<close>, \<^verbatim>\<open>y0[8]\<close>,
  \<^verbatim>\<open>y0[3]\<close>, \<^verbatim>\<open>y0[4]\<close>, \<^verbatim>\<open>y0[5]\<close>, \<^verbatim>\<open>y0[6]\<close>, then the attributes of
  \<^verbatim>\<open>old_tle\<close>, then the constructor.
\<close>

definition update_TLE :: "(tle_elements \<Rightarrow> bool) \<Rightarrow> tle \<Rightarrow> pyfloat list \<Rightarrow> error + tle" where
  "update_TLE valid old_tle y0 =
     ebind (item y0 7) (\<lambda>y7.
     ebind (mean_motion_of y7) (\<lambda>mm.
     ebind (item y0 0) (\<lambda>y_0.
     ebind (item y0 8) (\<lambda>y8.
     ebind (item y0 3) (\<lambda>y3.
     ebind (item y0 4) (\<lambda>y4.
     ebind (item y0 5) (\<lambda>y5.
     ebind (item y0 6) (\<lambda>y6.
     TLE valid
       \<lparr> mean_motion = mm,
         b_star = y_0,
         raan = y8,
         eccentricity = y3,
         argument_of_perigee = y4,
         inclination = y5,
         mean_anomaly = y6,
         mean_motion_first_derivative = mean_motion_first_derivative old_tle,
         mean_motion_second_derivative = mean_motion_second_derivative old_tle,
         epoch_days = epoch_days old_tle,
         epoch_year = epoch_year old_tle,
         classification = classification old_tle,
         satellite_catalog_number = satellite_catalog_number old_tle,
         ephemeris_type = ephemeris_type old_tle,
         international_designator = international_designator old_tle,
         revolution_number_at_epoch = revolution_number_at_epoch old_tle,
         element_number = element_number old_tle \<rparr>))))))))"

text \<open>
  Modelled from the spec: the conversion of a mean motion in the TLE record's convention
  to the parameter vector's convention, which the constructor of the external TLE class
  performs and which is not part of the repository (line 47 keeps it as a comment:
  \<^verbatim>\<open>mean_motion/(np.pi/43200.0)/xpdotp\<close>).
\<close>

definition no_kozai_of_mean_motion :: "pyfloat \<Rightarrow> error + pyfloat" where
  "no_kozai_of_mean_motion m =
     ebind (fdiv (Fin pi) (Fin 43200)) (\<lambda>c.
     ebind (fdiv m c) (\<lambda>a. fdiv a (Fin xpdotp)))"

text \<open>The fields that \<^verbatim>\<open>update_TLE\<close> copies from \<^verbatim>\<open>old_tle\<close>.\<close>

definition fixed_fields ::
  "tle \<Rightarrow> pyfloat \<times> pyfloat \<times> pyfloat \<times> int \<times> string \<times> int \<times> int \<times> string \<times> int \<times> int" where
  "fixed_fields t =
     (mean_motion_first_derivative t, mean_motion_second_derivative t, epoch_days t,
      epoch_year t, classification t, satellite_catalog_number t, ephemeris_type t,
      international_designator t, revolution_number_at_epoch t, element_number t)"

subsection \<open>The collaborators\<close>

text \<open>
  The target state is a 2 by 3 array: row 0 the position, row 1 the velocity. The six
  entries that \<^verbatim>\<open>newton_method\<close> reads are named by \<open>component\<close>:
  \<open>RX\<close> is \<^verbatim>\<open>[0][0]\<close>, \<open>RY\<close> is \<^verbatim>\<open>[0][1]\<close>, \<open>RZ\<close> is \<^verbatim>\<open>[0][2]\<close>,
  \<open>VX\<close> is \<^verbatim>\<open>[1][0]\<close>, \<open>VY\<close> is \<^verbatim>\<open>[1][1]\<close>, \<open>VZ\<close> is \<^verbatim>\<open>[1][2]\<close>.
\<close>

type_synonym state = "(pyfloat \<times> pyfloat \<times> pyfloat) \<times> (pyfloat \<times> pyfloat \<times> pyfloat)"

datatype component = RX | RY | RZ | VX | VY | VZ

fun entry :: "state \<Rightarrow> component \<Rightarrow> pyfloat" where
  "entry ((x, y, z), (u, v, w)) RX = x"
| "entry ((x, y, z), (u, v, w)) RY = y"
| "entry ((x, y, z), (u, v, w)) RZ = z"
| "entry ((x, y, z), (u, v, w)) VX = u"
| "entry ((x, y, z), (u, v, w)) VY = v"
| "entry ((x, y, z), (u, v, w)) VZ = w"

text \<open>
  The private attributes of a TLE object that \<^verbatim>\<open>initial_guess\<close> reads
  (\<^verbatim>\<open>_bstar\<close>, \<^verbatim>\<open>_ndot\<close>, ..., \<^verbatim>\<open>_nodeo\<close>).
\<close>

record tle_private =
  p_bstar :: pyfloat
  p_ndot :: pyfloat
  p_nddot :: pyfloat
  p_ecco :: pyfloat
  p_argpo :: pyfloat
  p_inclo :: pyfloat
  p_mo :: pyfloat
  p_no_kozai :: pyfloat
  p_nodeo :: pyfloat

text \<open>
  The functions that the file calls and does not define:
  \<^item> \<open>sgp4\<close>: \<^verbatim>\<open>sgp4(tle, x)\<close>;
  \<^item> \<open>from_cartesian_to_tle_elements\<close>: \<^verbatim>\<open>kessler.util.from_cartesian_to_tle_elements\<close>;
  \<^item> \<open>from_year_day_to_date\<close>: \<^verbatim>\<open>util.from_year_day_to_date\<close>;
  \<^item> \<open>add_days\<close>: \<^verbatim>\<open>date + datetime.timedelta(days=d)\<close>;
  \<^item> \<open>date_year\<close>: the attribute \<^verbatim>\<open>year\<close> of a date;
  \<^item> \<open>from_datetime_to_fractional_day\<close>: \<^verbatim>\<open>kessler.util.from_datetime_to_fractional_day\<close>;
  \<^item> \<open>tle_valid\<close>: the dictionaries that the TLE constructor accepts;
  \<^item> \<open>private_attrs\<close>: the private attributes of a TLE object;
  \<^item> \<open>propagate\<close>: \<^verbatim>\<open>util.propagate(x, tle, tsince)\<close>;
  \<^item> \<open>grad\<close>: the attribute \<^verbatim>\<open>grad\<close> of the tensor \<open>x\<close> after \<^verbatim>\<open>backward()\<close> on the
    named entry of \<^verbatim>\<open>util.propagate(x, tle, 0.)\<close>;
  \<^item> \<open>linalg_inv\<close>: \<^verbatim>\<open>np.linalg.inv\<close>, which raises LinAlgError on a singular matrix.
\<close>

record 'date env =
  sgp4 :: "tle \<Rightarrow> pyfloat \<Rightarrow> error + state"
  from_cartesian_to_tle_elements :: "state \<Rightarrow> error + tle_elements"
  from_year_day_to_date :: "int \<Rightarrow> pyfloat \<Rightarrow> error + 'date"
  add_days :: "'date \<Rightarrow> pyfloat \<Rightarrow> error + 'date"
  date_year :: "'date \<Rightarrow> int"
  from_datetime_to_fractional_day :: "'date \<Rightarrow> error + pyfloat"
  tle_valid :: "tle_elements \<Rightarrow> bool"
  private_attrs :: "tle \<Rightarrow> tle_private"
  propagate :: "pyfloat list \<Rightarrow> tle \<Rightarrow> pyfloat \<Rightarrow> error + state"
  grad :: "component \<Rightarrow> pyfloat list \<Rightarrow> tle \<Rightarrow> error + pyfloat list"
  linalg_inv :: "pyfloat list list \<Rightarrow> error + pyfloat list list"

subsection \<open>initial_guess\<close>

text \<open>\<^verbatim>\<open>target_state.detach().numpy()*1e3\<close>: every entry times 1000.\<close>

definition scale_state :: "pyfloat \<Rightarrow> state \<Rightarrow> state" where
  "scale_state k s =
     (case s of ((x, y, z), (u, v, w)) \<Rightarrow>
        ((fmul x k, fmul y k, fmul z k), (fmul u k, fmul v k, fmul w k)))"

definition initial_guess ::
  "'date env \<Rightarrow> tle \<Rightarrow> pyfloat \<Rightarrow> error + (pyfloat list \<times> state \<times> tle \<times> tle_elements)" where
  "initial_guess E tle_0 tsince =
     (let x = fmul tsince (Fin 1) in
      ebind (sgp4 E tle_0 x) (\<lambda>target_state.
      ebind (from_cartesian_to_tle_elements E (scale_state (Fin 1000) target_state))
        (\<lambda>tle_elements_0.
      ebind (from_year_day_to_date E (epoch_year tle_0) (epoch_days tle_0)) (\<lambda>date_0.
      ebind (fdiv tsince (Fin 1440)) (\<lambda>days.
      ebind (add_days E date_0 days) (\<lambda>new_date.
      ebind (from_datetime_to_fractional_day E new_date) (\<lambda>new_days.
      let tle_elements_0 = tle_elements_0
            \<lparr> epoch_year := date_year E new_date,
              epoch_days := new_days,
              mean_motion_first_derivative := mean_motion_first_derivative tle_0,
              mean_motion_second_derivative := mean_motion_second_derivative tle_0,
              classification := classification tle_0,
              international_designator := international_designator tle_0,
              satellite_catalog_number := satellite_catalog_number tle_0,
              ephemeris_type := ephemeris_type tle_0,
              element_number := element_number tle_0,
              b_star := b_star tle_0,
              revolution_number_at_epoch := revolution_number_at_epoch tle_0 \<rparr>
      in
      ebind (TLE (tle_valid E) tle_elements_0) (\<lambda>new_tle.
      let p = private_attrs E new_tle;
          y0 = [p_bstar p, p_ndot p, p_nddot p, p_ecco p, p_argpo p, p_inclo p, p_mo p,
                p_no_kozai p, p_nodeo p, Fin 0]
      in Inr (y0, target_state, new_tle, tle_elements_0)))))))))"

subsection \<open>newton_method\<close>

text \<open>
  Modelled from the spec: \<^verbatim>\<open>util.clone_w_grad\<close>, defined in \<^verbatim>\<open>dsgp4/util.py\<close>,
  gives an independent copy of the vector with fresh gradient accumulators: the same
  values.
\<close>

definition clone_w_grad :: "pyfloat list \<Rightarrow> pyfloat list" where
  "clone_w_grad y = y"

text \<open>
  One entry of \<^verbatim>\<open>propagate(y)\<close> with its gradient: \<^verbatim>\<open>r=propagate(y)[a][b]\<close>,
  \<^verbatim>\<open>r.backward()\<close>, \<^verbatim>\<open>y.grad\<close>, where \<^verbatim>\<open>propagate\<close> is
  \<^verbatim>\<open>lambda x: util.propagate(x,next_tle,0.)\<close>.
\<close>

definition value_and_grad ::
  "'date env \<Rightarrow> tle \<Rightarrow> component \<Rightarrow> pyfloat list \<Rightarrow> error + (pyfloat \<times> pyfloat list)" where
  "value_and_grad E next_tle c y =
     ebind (propagate E y next_tle (Fin 0)) (\<lambda>st.
     ebind (grad E c y next_tle) (\<lambda>g. Inr (entry st c, g)))"

text \<open>Lines 142 to 166: the six entries, their gradients and the residual \<open>F\<close>.\<close>

definition newton_residual ::
  "'date env \<Rightarrow> state \<Rightarrow> pyfloat list \<Rightarrow> tle \<Rightarrow> error + (pyfloat list \<times> pyfloat list list)" where
  "newton_residual E state_target y0 next_tle =
     (let y1 = clone_w_grad y0; y2 = clone_w_grad y0; y3 = clone_w_grad y0;
          y4 = clone_w_grad y0; y5 = clone_w_grad y0
      in
      ebind (value_and_grad E next_tle RX y0) (\<lambda>(r_x, gradient_rx).
      ebind (value_and_grad E next_tle RY y1) (\<lambda>(r_y, gradient_ry).
      ebind (value_and_grad E next_tle RZ y2) (\<lambda>(r_z, gradient_rz).
      ebind (value_and_grad E next_tle VX y3) (\<lambda>(v_x, gradient_vx).
      ebind (value_and_grad E next_tle VY y4) (\<lambda>(v_y, gradient_vy).
      ebind (value_and_grad E next_tle VZ y5) (\<lambda>(v_z, gradient_vz).
      Inr ([fsub r_x (entry state_target RX), fsub r_y (entry state_target RY),
            fsub r_z (entry state_target RZ), fsub v_x (entry state_target VX),
            fsub v_y (entry state_target VY), fsub v_z (entry state_target VZ)],
           [gradient_rx, gradient_ry, gradient_rz, gradient_vx, gradient_vy,
            gradient_vz]))))))))"

text \<open>\<^verbatim>\<open>np.linalg.norm\<close> of a vector: the square root of the sum of the squares.\<close>

definition norm2 :: "pyfloat list \<Rightarrow> pyfloat" where
  "norm2 F = fsqrt (foldr fadd (map (\<lambda>x. fmul x x) F) (Fin 0))"

text \<open>\<^verbatim>\<open>np.stack\<close> of vectors: ValueError unless all have the same length.\<close>

definition np_stack :: "pyfloat list list \<Rightarrow> error + pyfloat list list" where
  "np_stack rows =
     (case rows of
        [] \<Rightarrow> Inl ValueError
      | r # rs \<Rightarrow> if list_all (\<lambda>q. length q = length r) rs then Inr rows else Inl ValueError)"

text \<open>Lines 171 and 172: \<^verbatim>\<open>DF=DF[:,3:]\<close>, then \<^verbatim>\<open>DF=DF[:,:-1]\<close>.\<close>

definition reduce_columns :: "pyfloat list list \<Rightarrow> pyfloat list list" where
  "reduce_columns DF = (let DF = map (drop 3) DF in map butlast DF)"

text \<open>
  Matrices are lists of rows of one length. \<open>transpose_m\<close> is \<^verbatim>\<open>.T\<close>, \<open>matmul\<close> and
  \<open>matvec\<close> are \<^verbatim>\<open>np.matmul\<close> on two matrices and on a matrix and a vector. In line 173
  the shapes agree whenever the inverse has the shape of its argument.
\<close>

definition transpose_m :: "pyfloat list list \<Rightarrow> pyfloat list list" where
  "transpose_m A =
     (case A of
        [] \<Rightarrow> []
      | r # _ \<Rightarrow> map (\<lambda>j. map (\<lambda>row. row ! j) A) [0..<length r])"

definition dot :: "pyfloat list \<Rightarrow> pyfloat list \<Rightarrow> pyfloat" where
  "dot u v = foldr fadd (map (\<lambda>(a, b). fmul a b) (zip u v)) (Fin 0)"

definition matvec :: "pyfloat list list \<Rightarrow> pyfloat list \<Rightarrow> pyfloat list" where
  "matvec A v = map (\<lambda>row. dot row v) A"

definition matmul :: "pyfloat list list \<Rightarrow> pyfloat list list \<Rightarrow> pyfloat list list" where
  "matmul A B = map (\<lambda>row. map (\<lambda>col. dot row col) (transpose_m B)) A"

text \<open>
  Lines 169 to 174: the stacked gradients, the reduced Jacobian, the Gauss-Newton
  correction and its padding to ten components.
\<close>

definition newton_correction ::
  "'date env \<Rightarrow> pyfloat list \<Rightarrow> pyfloat list list \<Rightarrow> error + pyfloat list" where
  "newton_correction E F gradients =
     ebind (np_stack gradients) (\<lambda>DF.
     let DF = reduce_columns DF in
     ebind (linalg_inv E (matmul (transpose_m DF) DF)) (\<lambda>inv.
     let dY = map fneg (matvec (matmul inv (transpose_m DF)) F)
     in Inr ([Fin 0, Fin 0, Fin 0] @ dY @ [Fin 0])))"

text \<open>
  One pass through the body of the loop, lines 140 to 183, without the increment of
  \<open>i\<close>: either the \<^verbatim>\<open>return\<close> of line 178, with the norm computed, or the update of
  lines 182 and 183, with the norm, the new \<open>y0\<close> and the new \<open>next_tle\<close>. The two
  \<^verbatim>\<open>print\<close> calls of lines 176 and 177 are not modelled.
\<close>

datatype iteration =
    Solution_found pyfloat
  | Newton_update pyfloat "pyfloat list" tle

definition newton_iteration ::
  "'date env \<Rightarrow> state \<Rightarrow> pyfloat \<Rightarrow> pyfloat list \<Rightarrow> tle \<Rightarrow> error + iteration" where
  "newton_iteration E state_target new_tol y0 next_tle =
     ebind (newton_residual E state_target y0 next_tle) (\<lambda>(F, gradients).
     let tol = norm2 F in
     ebind (newton_correction E F gradients) (\<lambda>dY.
     if fless tol new_tol then Inr (Solution_found tol)
     else
       (let y0 = map (\<lambda>(el1, el2). fadd el1 el2) (zip y0 dY) in
        ebind (update_TLE (tle_valid E) next_tle y0) (\<lambda>next_tle.
        Inr (Newton_update tol y0 next_tle)))))"

text \<open>
  The loop of line 139. The result is the state at the \<^verbatim>\<open>return\<close>: the counter \<open>i\<close>,
  the last norm, \<open>y0\<close> and \<open>next_tle\<close>.
\<close>

function newton_loop ::
  "'date env \<Rightarrow> state \<Rightarrow> pyfloat \<Rightarrow> int \<Rightarrow> int \<Rightarrow> pyfloat \<Rightarrow> pyfloat list \<Rightarrow> tle
     \<Rightarrow> error + (int \<times> pyfloat \<times> pyfloat list \<times> tle)" where
  "newton_loop E state_target new_tol max_iter i tol y0 next_tle =
     (if i < max_iter \<and> fless new_tol tol then
        (case newton_iteration E state_target new_tol y0 next_tle of
           Inl e \<Rightarrow> Inl e
         | Inr (Solution_found tol') \<Rightarrow> Inr (i, tol', y0, next_tle)
         | Inr (Newton_update tol' y0' next_tle') \<Rightarrow>
             newton_loop E state_target new_tol max_iter (i + 1) tol' y0' next_tle')
      else Inr (i, tol, y0, next_tle))"
  by pat_completeness auto
termination
  by (relation "measure (\<lambda>(E, state_target, new_tol, max_iter, i, tol, y0, next_tle).
        nat (max_iter - i))") auto

definition newton_method ::
  "'date env \<Rightarrow> tle \<Rightarrow> pyfloat \<Rightarrow> pyfloat \<Rightarrow> int \<Rightarrow> error + (tle \<times> pyfloat list)" where
  "newton_method E tle_0 tsince new_tol max_iter =
     (let i = 0; tol = Fin 1000000000 in
      ebind (initial_guess E tle_0 tsince) (\<lambda>(y0, state_target, next_tle, tle_elements_0).
      ebind (newton_loop E state_target new_tol max_iter i tol y0 next_tle)
        (\<lambda>(i, tol, y0, next_tle). Inr (next_tle, y0))))"

text \<open>
  The state after \<open>k\<close> passes through the body that all ended in the update of lines
  182 to 184; \<open>None\<close> when one of them raised or returned.
\<close>

fun updates ::
  "'date env \<Rightarrow> state \<Rightarrow> pyfloat \<Rightarrow> nat \<Rightarrow> int \<times> pyfloat \<times> pyfloat list \<times> tle
     \<Rightarrow> (int \<times> pyfloat \<times> pyfloat list \<times> tle) option" where
  "updates E state_target new_tol 0 st = Some st"
| "updates E state_target new_tol (Suc k) (i, tol, y0, next_tle) =
     (case newton_iteration E state_target new_tol y0 next_tle of
        Inr (Newton_update tol' y0' next_tle') \<Rightarrow>
          updates E state_target new_tol k (i + 1, tol', y0', next_tle')
      | _ \<Rightarrow> None)"

subsection \<open>Concrete inputs\<close>

definition accept_all :: "tle_elements \<Rightarrow> bool" where
  "accept_all d = True"

definition tle_example :: tle where
  "tle_example =
     \<lparr> mean_motion = Fin (1 / 15), b_star = Fin 0, raan = Fin 1, eccentricity = Fin (1 / 100),
       argument_of_perigee = Fin 2, inclination = Fin 1, mean_anomaly = Fin 3,
       mean_motion_first_derivative = Fin 0, mean_motion_second_derivative = Fin 0,
       epoch_days = Fin 100, epoch_year = 2021, classification = ''U'',
       satellite_catalog_number = 25544, ephemeris_type = 0,
       international_designator = ''98067A'', revolution_number_at_epoch = 1,
       element_number = 999 \<rparr>"

definition y_example :: "pyfloat list" where
  "y_example = [Fin 5, Fin 6, Fin 7, Fin (1 / 2), Fin 2, Fin 1, Fin 3, Fin 60, Fin 4, Fin 0]"

definition y_other :: "pyfloat list" where
  "y_other = [Fin 5, NaN, Fin 8, Fin (1 / 2), Fin 2, Fin 1, Fin 3, Fin 60, Fin 4, Fin 9]"

definition y_nan :: "pyfloat list" where
  "y_nan = [Fin 5, Fin 6, Fin 7, NaN, Fin 2, Fin 1, Fin 3, PosInf, Fin 4, Fin 0]"

text \<open>The defaults of \<^verbatim>\<open>newton_method\<close>: \<^verbatim>\<open>new_tol=1e-12\<close> (and \<^verbatim>\<open>max_iter=50\<close>).\<close>

definition default_new_tol :: pyfloat where
  "default_new_tol = Fin (1 / 10 ^ 12)"

text \<open>
  A linear propagator: the six entries of \<^verbatim>\<open>propagate(y)\<close> are the slots 3 to 8 of
  \<open>y\<close>, so the gradient of an entry is the unit vector of its slot and the reduced
  Jacobian is the identity matrix, the only matrix whose inverse the environment gives.
\<close>

definition unit_row :: "nat \<Rightarrow> pyfloat list" where
  "unit_row j = map (\<lambda>k. if k = j then Fin 1 else Fin 0) [0..<10]"

definition identity6 :: "pyfloat list list" where
  "identity6 = map (\<lambda>j. map (\<lambda>k. if k = j then Fin 1 else Fin 0) [0..<6]) [0..<6]"

fun slot :: "component \<Rightarrow> nat" where
  "slot RX = 3"
| "slot RY = 4"
| "slot RZ = 5"
| "slot VX = 6"
| "slot VY = 7"
| "slot VZ = 8"

definition target_example :: state where
  "target_example = ((Fin 1, Fin 2, Fin 3), (Fin 4, Fin 5, Fin 6))"

definition env_linear :: "unit env" where
  "env_linear =
     \<lparr> sgp4 = (\<lambda>t x. Inr target_example),
       from_cartesian_to_tle_elements = (\<lambda>s. Inr tle_example),
       from_year_day_to_date = (\<lambda>y d. Inr ()),
       add_days = (\<lambda>d x. Inr ()),
       date_year = (\<lambda>d. 2021),
       from_datetime_to_fractional_day = (\<lambda>d. Inr (Fin 100)),
       tle_valid = accept_all,
       private_attrs = (\<lambda>t. \<lparr> p_bstar = Fin 0, p_ndot = Fin 0, p_nddot = Fin 0,
          p_ecco = Fin 2, p_argpo = Fin 2, p_inclo = Fin 3, p_mo = Fin 4,
          p_no_kozai = Fin 5, p_nodeo = Fin 6 \<rparr>),
       propagate = (\<lambda>y t x. if length y = 10
          then Inr ((y ! 3, y ! 4, y ! 5), (y ! 6, y ! 7, y ! 8)) else Inl PropagationError),
       grad = (\<lambda>c y t. if length y = 10 then Inr (unit_row (slot c)) else Inl PropagationError),
       linalg_inv = (\<lambda>A. if A = identity6 then Inr A else Inl LinAlgError) \<rparr>"

text \<open>
  A constant propagator: every gradient is zero, so the normal-equation matrix is the
  zero matrix, which \<^verbatim>\<open>np.linalg.inv\<close> rejects.
\<close>

definition env_singular :: "unit env" where
  "env_singular = env_linear
     \<lparr> propagate := (\<lambda>y t x. Inr target_example),
       grad := (\<lambda>c y t. Inr (map (\<lambda>el. Fin 0) y)) \<rparr>"

text \<open>A propagator that raises on every call.\<close>

definition env_failing :: "unit env" where
  "env_failing = env_linear \<lparr> propagate := (\<lambda>y t x. Inl PropagationError) \<rparr>"

definition y_init :: "pyfloat list" where
  "y_init = [Fin 0, Fin 0, Fin 0, Fin 2, Fin 2, Fin 3, Fin 4, Fin 5, Fin 6, Fin 0]"

definition zero_rows :: "pyfloat list list" where
  "zero_rows = map (\<lambda>c. map (\<lambda>el. Fin 0) y_init) [RX, RY, RZ, VX, VY, VZ]"

definition y_target :: "pyfloat list" where
  "y_target = [Fin 0, Fin 0, Fin 0, Fin 1, Fin 2, Fin 3, Fin 4, Fin 5, Fin 6, Fin 0]"

definition tle_one :: tle where
  "tle_one = tle_example
     \<lparr> mean_motion := Fin (1 / 12), b_star := Fin 0, raan := Fin 6, eccentricity := Fin 1,
       argument_of_perigee := Fin 2, inclination := Fin 3, mean_anomaly := Fin 4 \<rparr>"

definition unit_rows :: "pyfloat list list" where
  "unit_rows = [unit_row 3, unit_row 4, unit_row 5, unit_row 6, unit_row 7, unit_row 8]"

definition zeros6 :: "pyfloat list" where
  "zeros6 = [Fin 0, Fin 0, Fin 0, Fin 0, Fin 0, Fin 0]"

definition e1 :: "pyfloat list" where
  "e1 = [Fin 1, Fin 0, Fin 0, Fin 0, Fin 0, Fin 0]"

section \<open>Properties\<close>

subsection \<open>Helper lemmas\<close>

lemma ebind_Inr [simp]: "ebind (Inr x) f = f x"
  by (simp add: ebind_def)

lemma ebind_Inl [simp]: "ebind (Inl e) f = Inl e"
  by (simp add: ebind_def)

lemma mean_motion_of_Fin: "mean_motion_of (Fin r) = Inr (Fin (r / 60))"
  by (simp add: mean_motion_of_def fdiv_def fmul_def xpdotp_def)

lemma mean_motion_of_PosInf: "mean_motion_of PosInf = Inr PosInf"
  by (simp add: mean_motion_of_def fdiv_def fmul_def xpdotp_def)

lemma mean_motion_of_NegInf: "mean_motion_of NegInf = Inr NegInf"
  by (simp add: mean_motion_of_def fdiv_def fmul_def xpdotp_def)

lemma mean_motion_of_NaN: "mean_motion_of NaN = Inr NaN"
  by (simp add: mean_motion_of_def fdiv_def fmul_def xpdotp_def)

lemma mean_motion_of_total: "\<exists>mm. mean_motion_of x = Inr mm"
  by (cases x)
    (simp_all add: mean_motion_of_Fin mean_motion_of_PosInf mean_motion_of_NegInf
      mean_motion_of_NaN)

lemma item_in_range: "k < length y \<Longrightarrow> item y k = Inr (y ! k)"
  by (simp add: item_def)

text \<open>With nine components or more every read of \<^verbatim>\<open>update_TLE\<close> succeeds.\<close>

lemma update_TLE_long:
  assumes "9 \<le> length y" and "mean_motion_of (y ! 7) = Inr mm"
  shows "update_TLE valid old_tle y =
     TLE valid
       \<lparr> mean_motion = mm, b_star = y ! 0, raan = y ! 8, eccentricity = y ! 3,
         argument_of_perigee = y ! 4, inclination = y ! 5, mean_anomaly = y ! 6,
         mean_motion_first_derivative = mean_motion_first_derivative old_tle,
         mean_motion_second_derivative = mean_motion_second_derivative old_tle,
         epoch_days = epoch_days old_tle,
         epoch_year = epoch_year old_tle,
         classification = classification old_tle,
         satellite_catalog_number = satellite_catalog_number old_tle,
         ephemeris_type = ephemeris_type old_tle,
         international_designator = international_designator old_tle,
         revolution_number_at_epoch = revolution_number_at_epoch old_tle,
         element_number = element_number old_tle \<rparr>"
proof -
  have "0 < length y" "3 < length y" "4 < length y" "5 < length y" "6 < length y"
    "7 < length y" "8 < length y"
    using assms(1) by auto
  then show ?thesis
    using assms(2) by (simp add: update_TLE_def item_in_range)
qed

text \<open>With fewer than nine components one of the reads raises IndexError.\<close>

lemma update_TLE_short:
  assumes "length y < 9"
  shows "update_TLE valid old_tle y = Inl IndexError"
proof (cases "7 < length y")
  case True
  obtain mm where mm: "mean_motion_of (y ! 7) = Inr mm"
    using mean_motion_of_total by blast
  have "length y = 8" using True assms by simp
  then show ?thesis
    using mm by (simp add: update_TLE_def item_def)
next
  case False
  then show ?thesis
    by (simp add: update_TLE_def item_def)
qed

subsection \<open>update_TLE\<close>

text \<open>
  Claim C4. For every parameter vector \<open>y\<close> of ten components, \<^verbatim>\<open>update_TLE\<close> hands
  the TLE constructor a dictionary whose mean motion is
  \<open>y[7] * xpdotp * \<pi> / 43200\<close> with \<open>xpdotp = 1440 / (2\<pi>)\<close> (that is \<open>y[7] / 60\<close> for a
  finite \<open>y[7]\<close>), whose drag term is \<open>y[0]\<close>, RAAN \<open>y[8]\<close>, eccentricity \<open>y[3]\<close>,
  argument of perigee \<open>y[4]\<close>, inclination \<open>y[5]\<close> and mean anomaly \<open>y[6]\<close>, unconverted,
  and whose other fields are those of \<^verbatim>\<open>old_tle\<close>.
\<close>

theorem update_TLE_fields:
  assumes "length y = 10"
  shows "\<exists>mm. fdiv (fmul (fmul (y ! 7) (Fin xpdotp)) (Fin pi)) (Fin 43200) = Inr mm \<and>
     (\<forall>r. y ! 7 = Fin r \<longrightarrow> mm = Fin (r / 60)) \<and>
     update_TLE valid old_tle y =
       TLE valid
         \<lparr> mean_motion = mm, b_star = y ! 0, raan = y ! 8, eccentricity = y ! 3,
           argument_of_perigee = y ! 4, inclination = y ! 5, mean_anomaly = y ! 6,
           mean_motion_first_derivative = mean_motion_first_derivative old_tle,
           mean_motion_second_derivative = mean_motion_second_derivative old_tle,
           epoch_days = epoch_days old_tle,
           epoch_year = epoch_year old_tle,
           classification = classification old_tle,
           satellite_catalog_number = satellite_catalog_number old_tle,
           ephemeris_type = ephemeris_type old_tle,
           international_designator = international_designator old_tle,
           revolution_number_at_epoch = revolution_number_at_epoch old_tle,
           element_number = element_number old_tle \<rparr>"
proof -
  obtain mm where mm: "mean_motion_of (y ! 7) = Inr mm"
    using mean_motion_of_total by blast
  have formula: "fdiv (fmul (fmul (y ! 7) (Fin xpdotp)) (Fin pi)) (Fin 43200) = Inr mm"
    using mm by (simp add: mean_motion_of_def)
  have sixty: "\<forall>r. y ! 7 = Fin r \<longrightarrow> mm = Fin (r / 60)"
    using mm by (auto simp: mean_motion_of_Fin)
  have "9 \<le> length y" using assms by simp
  from update_TLE_long [OF this mm] formula sixty show ?thesis
    by blast
qed

theorem update_TLE_fields_witness:
  "length y_example = 10 \<and>
   update_TLE accept_all tle_example y_example =
     Inr (tle_example \<lparr> mean_motion := Fin 1, b_star := Fin 5, raan := Fin 4,
            eccentricity := Fin (1 / 2), argument_of_perigee := Fin 2, inclination := Fin 1,
            mean_anomaly := Fin 3 \<rparr>)"
proof -
  have len: "length y_example = 10"
    by (simp add: y_example_def)
  have seven: "y_example ! 7 = Fin 60"
    by (simp add: y_example_def)
  obtain mm where mm: "\<forall>r. y_example ! 7 = Fin r \<longrightarrow> mm = Fin (r / 60)"
    and upd: "update_TLE accept_all tle_example y_example =
       TLE accept_all
         \<lparr> mean_motion = mm, b_star = y_example ! 0, raan = y_example ! 8,
           eccentricity = y_example ! 3, argument_of_perigee = y_example ! 4,
           inclination = y_example ! 5, mean_anomaly = y_example ! 6,
           mean_motion_first_derivative = mean_motion_first_derivative tle_example,
           mean_motion_second_derivative = mean_motion_second_derivative tle_example,
           epoch_days = epoch_days tle_example,
           epoch_year = epoch_year tle_example,
           classification = classification tle_example,
           satellite_catalog_number = satellite_catalog_number tle_example,
           ephemeris_type = ephemeris_type tle_example,
           international_designator = international_designator tle_example,
           revolution_number_at_epoch = revolution_number_at_epoch tle_example,
           element_number = element_number tle_example \<rparr>"
    using update_TLE_fields [OF len, of accept_all tle_example] by blast
  have "mm = Fin 1"
    using mm seven by simp
  then show ?thesis
    using len upd by (simp add: y_example_def tle_example_def TLE_def accept_all_def)
qed

text \<open>
  Claim C6, as stated, fails: \<^verbatim>\<open>update_TLE\<close> has no finiteness check. Here the vector
  holds NaN in slot 3 and an infinity in slot 7, the constructor accepts every
  dictionary, and the call returns a record holding both.
\<close>

theorem update_TLE_nonfinite_counterexample:
  "\<not> is_finite (y_nan ! 3) \<and> \<not> is_finite (y_nan ! 7) \<and>
   update_TLE accept_all tle_example y_nan =
     Inr (tle_example \<lparr> mean_motion := PosInf, b_star := Fin 5, raan := Fin 4,
            eccentricity := NaN, argument_of_perigee := Fin 2, inclination := Fin 1,
            mean_anomaly := Fin 3 \<rparr>)"
  by (simp add: y_nan_def is_finite_def update_TLE_def item_def mean_motion_of_PosInf
      TLE_def accept_all_def tle_example_def)

text \<open>
  Claim C6, amended. \<^verbatim>\<open>update_TLE\<close> never fails with InvalidElementError, whatever
  the components of \<open>y\<close>. For a vector of nine components or more it passes the
  components, finite or not, to the TLE constructor, and its outcome is the
  constructor's outcome on that dictionary.
\<close>

theorem update_TLE_no_finiteness_check:
  "update_TLE valid old_tle y \<noteq> Inl InvalidElementError \<and>
   (9 \<le> length y \<longrightarrow> (\<exists>d. update_TLE valid old_tle y = TLE valid d \<and>
        b_star d = y ! 0 \<and> raan d = y ! 8 \<and> eccentricity d = y ! 3 \<and>
        argument_of_perigee d = y ! 4 \<and> inclination d = y ! 5 \<and> mean_anomaly d = y ! 6 \<and>
        mean_motion_of (y ! 7) = Inr (mean_motion d)))"
proof (cases "9 \<le> length y")
  case True
  obtain mm where mm: "mean_motion_of (y ! 7) = Inr mm"
    using mean_motion_of_total by blast
  have "update_TLE valid old_tle y \<noteq> Inl InvalidElementError"
    by (simp add: update_TLE_long [OF True mm] TLE_def)
  moreover have "\<exists>d. update_TLE valid old_tle y = TLE valid d \<and>
        b_star d = y ! 0 \<and> raan d = y ! 8 \<and> eccentricity d = y ! 3 \<and>
        argument_of_perigee d = y ! 4 \<and> inclination d = y ! 5 \<and> mean_anomaly d = y ! 6 \<and>
        mean_motion_of (y ! 7) = Inr (mean_motion d)"
    unfolding update_TLE_long [OF True mm]
    by (rule exI, rule conjI, rule refl) (simp add: mm)
  ultimately show ?thesis by blast
next
  case False
  then show ?thesis
    by (simp add: update_TLE_short)
qed

theorem update_TLE_no_finiteness_check_witness:
  "9 \<le> length y_nan \<and> update_TLE accept_all tle_example y_nan \<noteq> Inl InvalidElementError \<and>
   (\<exists>d. update_TLE accept_all tle_example y_nan = Inr d \<and> eccentricity d = NaN)"
proof -
  have len: "9 \<le> length y_nan"
    by (simp add: y_nan_def)
  obtain d where d: "update_TLE accept_all tle_example y_nan = TLE accept_all d"
    and e: "eccentricity d = y_nan ! 3"
    using update_TLE_no_finiteness_check [of accept_all tle_example y_nan] len by blast
  have "eccentricity d = NaN"
    using e by (simp add: y_nan_def)
  moreover have "update_TLE accept_all tle_example y_nan = Inr d"
    using d by (simp add: TLE_def accept_all_def)
  ultimately show ?thesis
    using len by simp
qed

text \<open>
  Claim C8. For every TLE record \<open>T\<close> and parameter vector \<open>y\<close>, applying \<^verbatim>\<open>update_TLE\<close>
  to its own result with the same \<open>y\<close> gives the outcome of the single application
  (the same record, all fields, or the same error), and the fixed fields of that
  record are those of \<open>T\<close>.
\<close>

theorem update_TLE_idempotent:
  "ebind (update_TLE valid T y) (\<lambda>T1. update_TLE valid T1 y) = update_TLE valid T y \<and>
   (\<forall>T1. update_TLE valid T y = Inr T1 \<longrightarrow> fixed_fields T1 = fixed_fields T)"
proof (cases "9 \<le> length y")
  case True
  obtain mm where mm: "mean_motion_of (y ! 7) = Inr mm"
    using mean_motion_of_total by blast
  show ?thesis
  proof (cases "update_TLE valid T y")
    case (Inl e)
    then show ?thesis by simp
  next
    case (Inr T1)
    have fixed: "fixed_fields T1 = fixed_fields T"
      using Inr unfolding update_TLE_long [OF True mm] TLE_def fixed_fields_def
      by (cases "valid T1") (auto split: if_splits)
    have again: "update_TLE valid T1 y = Inr T1"
      using Inr fixed unfolding update_TLE_long [OF True mm] TLE_def fixed_fields_def
      by (auto split: if_splits)
    show ?thesis
      using Inr fixed again by simp
  qed
next
  case False
  then show ?thesis
    by (simp add: update_TLE_short)
qed

theorem update_TLE_idempotent_witness:
  "\<exists>T1. update_TLE accept_all tle_example y_example = Inr T1 \<and>
     update_TLE accept_all T1 y_example = Inr T1 \<and>
     fixed_fields T1 = fixed_fields tle_example"
proof -
  obtain mm where mm: "mean_motion_of (y_example ! 7) = Inr mm"
    using mean_motion_of_total by blast
  have len: "9 \<le> length y_example" by (simp add: y_example_def)
  obtain T1 where T1: "update_TLE accept_all tle_example y_example = Inr T1"
    by (simp add: update_TLE_long [OF len mm] TLE_def accept_all_def)
  have "ebind (Inr T1) (\<lambda>T1. update_TLE accept_all T1 y_example) = Inr T1"
    and "fixed_fields T1 = fixed_fields tle_example"
    using update_TLE_idempotent [of accept_all tle_example y_example] T1 by simp_all
  then show ?thesis
    using T1 by simp
qed

text \<open>
  Claim C9. Over exact arithmetic, converting a mean motion \<open>m\<close> of the TLE record's
  convention to the parameter vector's convention and back through the conversion of
  \<^verbatim>\<open>update_TLE\<close> (times \<open>xpdotp\<close>, times \<open>\<pi>\<close>, divided by 43200) gives \<open>m\<close> again.
\<close>

theorem mean_motion_round_trip:
  "ebind (no_kozai_of_mean_motion (Fin m)) mean_motion_of = Inr (Fin m)"
  by (simp add: no_kozai_of_mean_motion_def mean_motion_of_def fdiv_def fmul_def xpdotp_def)

text \<open>
  Claim C10. The outcome of \<^verbatim>\<open>update_TLE\<close> depends only on the slots 0, 3, 4, 5, 6, 7
  and 8 of the parameter vector and on the fixed fields of \<^verbatim>\<open>old_tle\<close>: two calls
  whose ten-component vectors differ only in the slots 1, 2 and 9, on records with the
  same fixed fields, have the same outcome.
\<close>

theorem update_TLE_depends_only_on_free_slots:
  assumes "length y = 10" and "length y' = 10"
    and "\<forall>k \<in> {0, 3, 4, 5, 6, 7, 8}. y ! k = y' ! k"
    and "fixed_fields old_tle = fixed_fields old_tle'"
  shows "update_TLE valid old_tle y = update_TLE valid old_tle' y'"
proof -
  obtain mm where mm: "mean_motion_of (y ! 7) = Inr mm"
    using mean_motion_of_total by blast
  have mm': "mean_motion_of (y' ! 7) = Inr mm"
    using mm assms(3) by simp
  have len: "9 \<le> length y" "9 \<le> length y'"
    using assms(1,2) by simp_all
  show ?thesis
    using assms(3,4)
    by (simp add: update_TLE_long [OF len(1) mm] update_TLE_long [OF len(2) mm'] fixed_fields_def)
qed

theorem update_TLE_depends_only_on_free_slots_witness:
  "y_example ! 1 \<noteq> y_other ! 1 \<and> y_example ! 2 \<noteq> y_other ! 2 \<and>
   y_example ! 9 \<noteq> y_other ! 9 \<and>
   update_TLE accept_all tle_example y_example = update_TLE accept_all tle_example y_other"
proof -
  have "update_TLE accept_all tle_example y_example = update_TLE accept_all tle_example y_other"
    by (rule update_TLE_depends_only_on_free_slots) (simp_all add: y_example_def y_other_def)
  then show ?thesis
    by (simp add: y_example_def y_other_def)
qed

subsection \<open>Helper lemmas on the Newton iteration\<close>

lemma fadd_zero_right: "fadd x (Fin 0) = x"
  by (cases x) simp_all

lemma length_transpose_m: "length (transpose_m (r # A)) = length r"
  by (simp add: transpose_m_def)

lemma length_matmul: "length (matmul A B) = length A"
  by (simp add: matmul_def)

lemma length_matvec: "length (matvec A v) = length A"
  by (simp add: matvec_def)

lemma np_stack_uniform:
  assumes "G \<noteq> []" and "\<forall>row \<in> set G. length row = n"
  shows "np_stack G = Inr G"
  using assms by (cases G) (auto simp: np_stack_def list_all_iff)

lemma length_reduce_columns: "length (reduce_columns G) = length G"
  by (simp add: reduce_columns_def)

lemma reduce_columns_row:
  assumes "r < length G"
  shows "reduce_columns G ! r = butlast (drop 3 (G ! r))"
  using assms by (simp add: reduce_columns_def)

lemma reduce_columns_entry:
  assumes "r < length G" and "length (G ! r) = 10" and "c < 6"
  shows "reduce_columns G ! r ! c = G ! r ! (c + 3)"
  using assms by (simp add: reduce_columns_row nth_butlast add.commute)

lemma newton_residual_gradients:
  assumes "newton_residual E tgt y0 tle = Inr (F, G)"
    and "\<forall>c y t g. grad E c y t = Inr g \<longrightarrow> length g = length y"
  shows "length G = 6 \<and> (\<forall>row \<in> set G. length row = length y0) \<and> length F = 6"
  using assms
  unfolding newton_residual_def value_and_grad_def clone_w_grad_def Let_def ebind_def
  by (auto split: sum.splits)

lemma newton_residual_grads:
  assumes "newton_residual E tgt y0 tle = Inr (F, G)"
  shows "map (\<lambda>c. grad E c y0 tle) [RX, RY, RZ, VX, VY, VZ] = map Inr G"
  using assms
  unfolding newton_residual_def value_and_grad_def clone_w_grad_def Let_def ebind_def
  by (auto split: sum.splits)

lemma newton_correction_padding:
  assumes "length G = 6" and "\<forall>row \<in> set G. length row = 10"
    and inv_shape: "\<forall>A B. linalg_inv E A = Inr B \<longrightarrow> length B = length A"
    and corr: "newton_correction E F G = Inr dY"
  shows "length dY = 10 \<and> dY ! 0 = Fin 0 \<and> dY ! 1 = Fin 0 \<and> dY ! 2 = Fin 0 \<and> dY ! 9 = Fin 0"
proof -
  define DF where "DF = reduce_columns G"
  have ne: "G \<noteq> []" using assms(1) by auto
  have stack: "np_stack G = Inr G"
    using np_stack_uniform [OF ne assms(2)] .
  obtain r rs where DF: "DF = r # rs"
    using assms(1) by (cases DF) (auto simp: DF_def reduce_columns_def)
  have "r = reduce_columns G ! 0"
    using DF by (simp add: DF_def)
  then have "length r = 6"
    using assms(1,2) by (simp add: reduce_columns_row)
  then have cols: "length (transpose_m DF) = 6"
    by (simp add: DF length_transpose_m)
  obtain B where B: "linalg_inv E (matmul (transpose_m DF) DF) = Inr B"
    and dY: "dY = [Fin 0, Fin 0, Fin 0] @ map fneg (matvec (matmul B (transpose_m DF)) F) @ [Fin 0]"
    using corr unfolding newton_correction_def stack
    by (auto simp: Let_def DF_def ebind_def split: sum.splits)
  have "length B = 6"
    using inv_shape B cols by (simp add: length_matmul)
  then have six: "length (map fneg (matvec (matmul B (transpose_m DF)) F)) = 6"
    by (simp add: length_matvec length_matmul)
  show ?thesis
    unfolding dY using six by (simp add: nth_append)
qed

lemma newton_iteration_update:
  assumes it: "newton_iteration E tgt new_tol y0 tle = Inr (Newton_update tol' y0' tle')"
    and len: "length y0 = 10"
    and grad_shape: "\<forall>c y t g. grad E c y t = Inr g \<longrightarrow> length g = length y"
    and inv_shape: "\<forall>A B. linalg_inv E A = Inr B \<longrightarrow> length B = length A"
  shows "length y0' = 10 \<and> y0' ! 0 = y0 ! 0 \<and> y0' ! 1 = y0 ! 1 \<and> y0' ! 2 = y0 ! 2 \<and>
    y0' ! 9 = y0 ! 9"
proof -
  obtain F G dY where res: "newton_residual E tgt y0 tle = Inr (F, G)"
    and corr: "newton_correction E F G = Inr dY"
    and y0': "y0' = map (\<lambda>(el1, el2). fadd el1 el2) (zip y0 dY)"
    using it unfolding newton_iteration_def
    by (auto simp: Let_def ebind_def split: sum.splits if_splits)
  have G: "length G = 6" "\<forall>row \<in> set G. length row = 10"
    using newton_residual_gradients [OF res grad_shape] len by simp_all
  have pad: "length dY = 10" "dY ! 0 = Fin 0" "dY ! 1 = Fin 0" "dY ! 2 = Fin 0" "dY ! 9 = Fin 0"
    using newton_correction_padding [OF G inv_shape corr] by simp_all
  show ?thesis
    unfolding y0' using len pad by (simp add: fadd_zero_right)
qed

text \<open>
  The equation of \<open>newton_loop\<close> rewrites the loop in terms of itself; it is unfolded one
  pass at a time through the two lemmas below.
\<close>

declare newton_loop.simps [simp del]

lemma newton_loop_stop:
  assumes "\<not> (i < max_iter \<and> fless new_tol tol)"
  shows "newton_loop E tgt new_tol max_iter i tol y0 tle = Inr (i, tol, y0, tle)"
  by (subst newton_loop.simps) (rule if_not_P [OF assms])

lemma newton_loop_step:
  assumes "i < max_iter" and "fless new_tol tol"
  shows "newton_loop E tgt new_tol max_iter i tol y0 tle =
     (case newton_iteration E tgt new_tol y0 tle of
        Inl e \<Rightarrow> Inl e
      | Inr (Solution_found tol') \<Rightarrow> Inr (i, tol', y0, tle)
      | Inr (Newton_update tol' y0' tle') \<Rightarrow>
          newton_loop E tgt new_tol max_iter (i + 1) tol' y0' tle')"
  by (subst newton_loop.simps) (simp add: assms)

lemma newton_loop_slots:
  "\<forall>c y t g. grad E c y t = Inr g \<longrightarrow> length g = length y \<Longrightarrow>
   \<forall>A B. linalg_inv E A = Inr B \<longrightarrow> length B = length A \<Longrightarrow>
   length y0 = 10 \<Longrightarrow>
   newton_loop E tgt new_tol max_iter i tol y0 tle = Inr (i', tol', y', tle') \<Longrightarrow>
   length y' = 10 \<and> y' ! 0 = y0 ! 0 \<and> y' ! 1 = y0 ! 1 \<and> y' ! 2 = y0 ! 2 \<and> y' ! 9 = y0 ! 9"
proof (induction E tgt new_tol max_iter i tol y0 tle rule: newton_loop.induct)
  case (1 E tgt new_tol max_iter i tol y0 tle)
  show ?case
  proof (cases "i < max_iter \<and> fless new_tol tol")
    case False
    then show ?thesis
      using "1.prems"(3,4) by (simp add: newton_loop_stop)
  next
    case True
    then have guard: "i < max_iter" "fless new_tol tol" by simp_all
    show ?thesis
    proof (cases "newton_iteration E tgt new_tol y0 tle")
      case (Inl e)
      then show ?thesis
        using "1.prems"(4) by (simp add: newton_loop_step [OF guard])
    next
      case (Inr it)
      show ?thesis
      proof (cases it)
        case (Solution_found t)
        then show ?thesis
          using Inr "1.prems"(3,4) by (simp add: newton_loop_step [OF guard])
      next
        case (Newton_update t y1 tle1)
        have step: "newton_iteration E tgt new_tol y0 tle = Inr (Newton_update t y1 tle1)"
          using Inr Newton_update by simp
        have rec: "newton_loop E tgt new_tol max_iter (i + 1) t y1 tle1 = Inr (i', tol', y', tle')"
          using step "1.prems"(4) by (simp add: newton_loop_step [OF guard])
        have upd: "length y1 = 10 \<and> y1 ! 0 = y0 ! 0 \<and> y1 ! 1 = y0 ! 1 \<and> y1 ! 2 = y0 ! 2 \<and>
            y1 ! 9 = y0 ! 9"
          using newton_iteration_update [OF step "1.prems"(3) "1.prems"(1) "1.prems"(2)] .
        then have len1: "length y1 = 10" by simp
        have "length y' = 10 \<and> y' ! 0 = y1 ! 0 \<and> y' ! 1 = y1 ! 1 \<and> y' ! 2 = y1 ! 2 \<and>
            y' ! 9 = y1 ! 9"
          using "1.IH" [OF True step refl "1.prems"(1) "1.prems"(2) len1 rec] .
        then show ?thesis
          using upd by simp
      qed
    qed
  qed
qed

lemma initial_guess_vector:
  assumes "initial_guess E tle_0 tsince = Inr (y0, tgt, tle, elems)"
  shows "length y0 = 10 \<and> y0 ! 9 = Fin 0"
  using assms unfolding initial_guess_def
  by (auto simp: Let_def ebind_def split: sum.splits)

lemma updates_slots:
  "\<forall>c y t g. grad E c y t = Inr g \<longrightarrow> length g = length y \<Longrightarrow>
   \<forall>A B. linalg_inv E A = Inr B \<longrightarrow> length B = length A \<Longrightarrow>
   length y0 = 10 \<Longrightarrow>
   updates E tgt new_tol k (i, tol, y0, tle) = Some (i', tol', y', tle') \<Longrightarrow>
   length y' = 10 \<and> y' ! 0 = y0 ! 0 \<and> y' ! 1 = y0 ! 1 \<and> y' ! 2 = y0 ! 2 \<and> y' ! 9 = y0 ! 9"
proof (induction k arbitrary: i tol y0 tle)
  case 0
  then show ?case by simp
next
  case (Suc k)
  obtain t y1 tle1 where step: "newton_iteration E tgt new_tol y0 tle = Inr (Newton_update t y1 tle1)"
    and rest: "updates E tgt new_tol k (i + 1, t, y1, tle1) = Some (i', tol', y', tle')"
    using Suc.prems(4) by (auto split: sum.splits iteration.splits)
  have upd: "length y1 = 10 \<and> y1 ! 0 = y0 ! 0 \<and> y1 ! 1 = y0 ! 1 \<and> y1 ! 2 = y0 ! 2 \<and>
      y1 ! 9 = y0 ! 9"
    using newton_iteration_update [OF step Suc.prems(3) Suc.prems(1) Suc.prems(2)] .
  then have len1: "length y1 = 10" by simp
  have "length y' = 10 \<and> y' ! 0 = y1 ! 0 \<and> y' ! 1 = y1 ! 1 \<and> y' ! 2 = y1 ! 2 \<and>
      y' ! 9 = y1 ! 9"
    using Suc.IH [OF Suc.prems(1) Suc.prems(2) len1 rest] .
  then show ?case
    using upd by simp
qed

lemma newton_loop_exhausts:
  "updates E tgt new_tol n (i, tol, y0, tle) = Some st' \<Longrightarrow>
   \<forall>k<n. \<forall>st. updates E tgt new_tol k (i, tol, y0, tle) = Some st \<longrightarrow>
      fless new_tol (fst (snd st)) \<Longrightarrow>
   max_iter = i + int n \<Longrightarrow>
   newton_loop E tgt new_tol max_iter i tol y0 tle = Inr st' \<and> fst st' = max_iter"
proof (induction n arbitrary: i tol y0 tle)
  case 0
  then show ?case
    by (auto simp: newton_loop_stop)
next
  case (Suc n)
  have guard: "i < max_iter" "fless new_tol tol"
    using Suc.prems(2,3) by (simp, fastforce)
  obtain t y1 tle1 where step: "newton_iteration E tgt new_tol y0 tle = Inr (Newton_update t y1 tle1)"
    and rest: "updates E tgt new_tol n (i + 1, t, y1, tle1) = Some st'"
    using Suc.prems(1) by (auto split: sum.splits iteration.splits)
  have later: "\<forall>k<n. \<forall>st. updates E tgt new_tol k (i + 1, t, y1, tle1) = Some st \<longrightarrow>
      fless new_tol (fst (snd st))"
  proof (intro allI impI)
    fix k st
    assume k: "k < n" and st: "updates E tgt new_tol k (i + 1, t, y1, tle1) = Some st"
    have "updates E tgt new_tol (Suc k) (i, tol, y0, tle) = Some st"
      using st step by simp
    moreover have "Suc k < Suc n" using k by simp
    ultimately show "fless new_tol (fst (snd st))"
      using Suc.prems(2) by blast
  qed
  have "max_iter = (i + 1) + int n"
    using Suc.prems(3) by simp
  from Suc.IH [OF rest later this] show ?case
    by (simp add: newton_loop_step [OF guard] step)
qed

subsection \<open>Runs on the concrete environments\<close>

lemma unit_row_values:
  "unit_row 3 = [Fin 0, Fin 0, Fin 0, Fin 1, Fin 0, Fin 0, Fin 0, Fin 0, Fin 0, Fin 0]"
  "unit_row 4 = [Fin 0, Fin 0, Fin 0, Fin 0, Fin 1, Fin 0, Fin 0, Fin 0, Fin 0, Fin 0]"
  "unit_row 5 = [Fin 0, Fin 0, Fin 0, Fin 0, Fin 0, Fin 1, Fin 0, Fin 0, Fin 0, Fin 0]"
  "unit_row 6 = [Fin 0, Fin 0, Fin 0, Fin 0, Fin 0, Fin 0, Fin 1, Fin 0, Fin 0, Fin 0]"
  "unit_row 7 = [Fin 0, Fin 0, Fin 0, Fin 0, Fin 0, Fin 0, Fin 0, Fin 1, Fin 0, Fin 0]"
  "unit_row 8 = [Fin 0, Fin 0, Fin 0, Fin 0, Fin 0, Fin 0, Fin 0, Fin 0, Fin 1, Fin 0]"
  by (simp_all add: unit_row_def upt_rec)

lemma identity6_rows: "identity6 =
   [[Fin 1, Fin 0, Fin 0, Fin 0, Fin 0, Fin 0],
    [Fin 0, Fin 1, Fin 0, Fin 0, Fin 0, Fin 0],
    [Fin 0, Fin 0, Fin 1, Fin 0, Fin 0, Fin 0],
    [Fin 0, Fin 0, Fin 0, Fin 1, Fin 0, Fin 0],
    [Fin 0, Fin 0, Fin 0, Fin 0, Fin 1, Fin 0],
    [Fin 0, Fin 0, Fin 0, Fin 0, Fin 0, Fin 1]]"
  by (simp add: identity6_def upt_rec)

lemma length_unit_row: "length (unit_row j) = 10"
  by (simp add: unit_row_def)

lemma reduce_unit_rows: "reduce_columns unit_rows = identity6"
  by (simp add: reduce_columns_def unit_rows_def unit_row_values identity6_rows)

lemma stack_unit_rows: "np_stack unit_rows = Inr unit_rows"
  by (simp add: np_stack_def unit_rows_def length_unit_row)

lemma transpose_identity6: "transpose_m identity6 = identity6"
  by (simp add: transpose_m_def identity6_rows upt_rec)

lemma matmul_identity6: "matmul identity6 identity6 = identity6"
  unfolding matmul_def transpose_identity6
  by (simp add: identity6_rows dot_def fmul_def)

lemma matvec_identity6:
  "matvec identity6 [a, b, c, d, e, f] =
     [fadd (fmul (Fin 1) a) (fadd (fmul (Fin 0) b) (fadd (fmul (Fin 0) c) (fadd (fmul (Fin 0) d) (fadd (fmul (Fin 0) e) (fadd (fmul (Fin 0) f) (Fin 0)))))),
      fadd (fmul (Fin 0) a) (fadd (fmul (Fin 1) b) (fadd (fmul (Fin 0) c) (fadd (fmul (Fin 0) d) (fadd (fmul (Fin 0) e) (fadd (fmul (Fin 0) f) (Fin 0)))))),
      fadd (fmul (Fin 0) a) (fadd (fmul (Fin 0) b) (fadd (fmul (Fin 1) c) (fadd (fmul (Fin 0) d) (fadd (fmul (Fin 0) e) (fadd (fmul (Fin 0) f) (Fin 0)))))),
      fadd (fmul (Fin 0) a) (fadd (fmul (Fin 0) b) (fadd (fmul (Fin 0) c) (fadd (fmul (Fin 1) d) (fadd (fmul (Fin 0) e) (fadd (fmul (Fin 0) f) (Fin 0)))))),
      fadd (fmul (Fin 0) a) (fadd (fmul (Fin 0) b) (fadd (fmul (Fin 0) c) (fadd (fmul (Fin 0) d) (fadd (fmul (Fin 1) e) (fadd (fmul (Fin 0) f) (Fin 0)))))),
      fadd (fmul (Fin 0) a) (fadd (fmul (Fin 0) b) (fadd (fmul (Fin 0) c) (fadd (fmul (Fin 0) d) (fadd (fmul (Fin 0) e) (fadd (fmul (Fin 1) f) (Fin 0))))))]"
  by (simp add: matvec_def identity6_rows dot_def)

lemma correction_linear:
  "newton_correction env_linear [Fin a, Fin b, Fin c, Fin d, Fin e, Fin f] unit_rows =
     Inr [Fin 0, Fin 0, Fin 0, Fin (- a), Fin (- b), Fin (- c), Fin (- d), Fin (- e),
          Fin (- f), Fin 0]"
  unfolding newton_correction_def stack_unit_rows
  by (simp add: Let_def reduce_unit_rows transpose_identity6 matmul_identity6 env_linear_def
      matvec_identity6 fmul_def)

lemma residual_linear:
  "newton_residual env_linear target_example
       [y_0, y_1, y_2, Fin a, Fin b, Fin c, Fin d, Fin e, Fin f, y_9] next_tle =
     Inr ([Fin (a - 1), Fin (b - 2), Fin (c - 3), Fin (d - 4), Fin (e - 5), Fin (f - 6)],
          unit_rows)"
  by (simp add: newton_residual_def value_and_grad_def env_linear_def clone_w_grad_def
      target_example_def fsub_def unit_rows_def)

lemma initial_guess_linear:
  "initial_guess env_linear tle_example (Fin 0) =
     Inr (y_init, target_example, tle_example, tle_example)"
  by (simp add: initial_guess_def env_linear_def fdiv_def fmul_def TLE_def accept_all_def
      y_init_def tle_example_def Let_def)

lemma update_tle_one: "update_TLE accept_all tle_example y_target = Inr tle_one"
  by (simp add: update_TLE_def item_def y_target_def mean_motion_of_Fin TLE_def accept_all_def
      tle_one_def tle_example_def)

lemma first_iteration_linear:
  "newton_iteration env_linear target_example default_new_tol y_init tle_example =
     Inr (Newton_update (Fin 1) y_target tle_one)"
proof -
  have res: "newton_residual env_linear target_example y_init tle_example = Inr (e1, unit_rows)"
    unfolding y_init_def by (simp add: residual_linear e1_def)
  have corr: "newton_correction env_linear e1 unit_rows =
      Inr [Fin 0, Fin 0, Fin 0, Fin (- 1), Fin 0, Fin 0, Fin 0, Fin 0, Fin 0, Fin 0]"
    unfolding e1_def using correction_linear [of 1 0 0 0 0 0] by simp
  have norm: "norm2 e1 = Fin 1"
    by (simp add: norm2_def e1_def fmul_def)
  have y: "map (\<lambda>(el1, el2). fadd el1 el2)
      (zip y_init [Fin 0, Fin 0, Fin 0, Fin (- 1), Fin 0, Fin 0, Fin 0, Fin 0, Fin 0, Fin 0]) =
      y_target"
    by (simp add: y_init_def y_target_def)
  have valid: "tle_valid env_linear = accept_all"
    by (simp add: env_linear_def)
  show ?thesis
    unfolding newton_iteration_def res
    by (simp add: corr norm Let_def y valid update_tle_one default_new_tol_def)
qed

lemma second_residual_linear:
  "newton_residual env_linear target_example y_target tle_one = Inr (zeros6, unit_rows)"
  unfolding y_target_def by (simp add: residual_linear zeros6_def)

lemma norm2_zeros6: "norm2 zeros6 = Fin 0"
  by (simp add: norm2_def zeros6_def fmul_def)

lemma second_correction_linear:
  "newton_correction env_linear zeros6 unit_rows =
     Inr [Fin 0, Fin 0, Fin 0, Fin 0, Fin 0, Fin 0, Fin 0, Fin 0, Fin 0, Fin 0]"
  using correction_linear [of 0 0 0 0 0 0] by (simp add: zeros6_def)

lemma second_iteration_linear:
  "newton_iteration env_linear target_example default_new_tol y_target tle_one =
     Inr (Solution_found (Fin 0))"
  unfolding newton_iteration_def second_residual_linear
  by (simp add: second_correction_linear norm2_zeros6 Let_def default_new_tol_def)

lemma run_linear:
  "newton_loop env_linear target_example default_new_tol 50 0 (Fin 1000000000) y_init
       tle_example = Inr (1, Fin 0, y_target, tle_one)"
proof -
  have one: "newton_loop env_linear target_example default_new_tol 50 1 (Fin 1) y_target
      tle_one = Inr (1, Fin 0, y_target, tle_one)"
    by (subst newton_loop_step) (simp_all add: second_iteration_linear, simp add: default_new_tol_def)
  show ?thesis
    by (subst newton_loop_step) (simp_all add: first_iteration_linear one, simp add: default_new_tol_def)
qed

lemma method_linear:
  "newton_method env_linear tle_example (Fin 0) default_new_tol 50 = Inr (tle_one, y_target)"
  by (simp add: newton_method_def initial_guess_linear run_linear)

lemma updates_one_linear:
  "updates env_linear target_example default_new_tol (Suc 0) (0, Fin 1000000000, y_init, tle_example) =
     Some (1, Fin 1, y_target, tle_one)"
  by (simp add: first_iteration_linear)

lemma env_linear_shapes:
  "\<forall>c y t g. grad env_linear c y t = Inr g \<longrightarrow> length g = length y"
  "\<forall>A B. linalg_inv env_linear A = Inr B \<longrightarrow> length B = length A"
  by (auto simp: env_linear_def length_unit_row split: if_splits)

lemma initial_guess_singular:
  "initial_guess env_singular tle_example (Fin 0) =
     Inr (y_init, target_example, tle_example, tle_example)"
  by (simp add: initial_guess_def env_singular_def env_linear_def fdiv_def fmul_def TLE_def
      accept_all_def y_init_def tle_example_def Let_def)

lemma residual_singular:
  "newton_residual env_singular target_example y_init tle_example = Inr (zeros6, zero_rows)"
  by (simp add: newton_residual_def value_and_grad_def env_singular_def env_linear_def
      clone_w_grad_def target_example_def fsub_def zeros6_def zero_rows_def)

lemma correction_singular: "newton_correction env_singular zeros6 zero_rows = Inl LinAlgError"
proof -
  have rows: "zero_rows = [map (\<lambda>el. Fin 0) y_init, map (\<lambda>el. Fin 0) y_init,
      map (\<lambda>el. Fin 0) y_init, map (\<lambda>el. Fin 0) y_init, map (\<lambda>el. Fin 0) y_init,
      map (\<lambda>el. Fin 0) y_init]"
    by (simp add: zero_rows_def)
  have stack: "np_stack zero_rows = Inr zero_rows"
    by (simp add: np_stack_def rows)
  have red: "reduce_columns zero_rows = [zeros6, zeros6, zeros6, zeros6, zeros6, zeros6]"
    by (simp add: reduce_columns_def rows y_init_def zeros6_def)
  have tr: "transpose_m [zeros6, zeros6, zeros6, zeros6, zeros6, zeros6] =
      [zeros6, zeros6, zeros6, zeros6, zeros6, zeros6]"
    by (simp add: transpose_m_def zeros6_def upt_rec)
  have dot: "dot zeros6 zeros6 = Fin 0"
    by (simp add: dot_def zeros6_def fmul_def)
  have mm: "matmul [zeros6, zeros6, zeros6, zeros6, zeros6, zeros6]
      [zeros6, zeros6, zeros6, zeros6, zeros6, zeros6] =
      [zeros6, zeros6, zeros6, zeros6, zeros6, zeros6]"
    unfolding matmul_def tr by (simp add: dot) (simp add: zeros6_def)
  have sing: "linalg_inv env_singular [zeros6, zeros6, zeros6, zeros6, zeros6, zeros6] =
      Inl LinAlgError"
    by (simp add: env_singular_def env_linear_def identity6_rows zeros6_def)
  show ?thesis
    unfolding newton_correction_def stack
    by (simp add: Let_def red tr mm sing)
qed

lemma initial_guess_failing:
  "initial_guess env_failing tle_example (Fin 0) =
     Inr (y_init, target_example, tle_example, tle_example)"
  by (simp add: initial_guess_def env_failing_def env_linear_def fdiv_def fmul_def TLE_def
      accept_all_def y_init_def tle_example_def Let_def)

subsection \<open>newton_method\<close>

text \<open>
  Claim C1, as stated, fails: the normal equations are solved (line 173) before the
  tolerance is tested (line 175). With the constant propagator the first residual is
  zero, within the tolerance, and the run ends in the LinAlgError of the inverse.
\<close>

theorem convergence_return_counterexample:
  "initial_guess env_singular tle_example (Fin 0) =
     Inr (y_init, target_example, tle_example, tle_example) \<and>
   newton_residual env_singular target_example y_init tle_example = Inr (zeros6, zero_rows) \<and>
   fle (norm2 zeros6) default_new_tol \<and>
   newton_method env_singular tle_example (Fin 0) default_new_tol 50 = Inl LinAlgError"
proof -
  have le: "fle (norm2 zeros6) default_new_tol"
    by (simp add: fle_def norm2_zeros6 default_new_tol_def)
  have it: "newton_iteration env_singular target_example default_new_tol y_init tle_example =
      Inl LinAlgError"
    unfolding newton_iteration_def residual_singular
    by (simp add: correction_singular Let_def)
  have guard: "(0::int) < 50" "fless default_new_tol (Fin 1000000000)"
    by (simp_all add: default_new_tol_def)
  have "newton_loop env_singular target_example default_new_tol 50 0 (Fin 1000000000) y_init
      tle_example = Inl LinAlgError"
    by (simp add: newton_loop_step [OF guard] it)
  then have "newton_method env_singular tle_example (Fin 0) default_new_tol 50 =
      Inl LinAlgError"
    by (simp add: newton_method_def initial_guess_singular)
  then show ?thesis
    using le initial_guess_singular residual_singular by simp
qed

text \<open>
  Claim C1, amended. In every iteration that is entered and whose residual norm is
  strictly below \<^verbatim>\<open>new_tol\<close>, the correction of lines 169 to 174 is computed first:
  if it raises (a singular matrix in \<^verbatim>\<open>np.linalg.inv\<close>), \<^verbatim>\<open>newton_method\<close> raises
  that error; otherwise the loop returns \<^verbatim>\<open>next_tle\<close> and \<^verbatim>\<open>y0\<close> as they were at
  the start of the iteration, the correction not applied.
\<close>

theorem convergence_return:
  assumes "i < max_iter" and "fless new_tol tol"
    and "newton_residual E state_target y0 next_tle = Inr (F, gradients)"
    and "fless (norm2 F) new_tol"
  shows "newton_loop E state_target new_tol max_iter i tol y0 next_tle =
     (case newton_correction E F gradients of
        Inl e \<Rightarrow> Inl e
      | Inr dY \<Rightarrow> Inr (i, norm2 F, y0, next_tle))"
  using assms(3,4)
  by (simp add: newton_loop_step [OF assms(1,2)] newton_iteration_def Let_def split: sum.splits)

theorem convergence_return_witness:
  "(1::int) < 50 \<and> fless default_new_tol (Fin 1) \<and>
   newton_residual env_linear target_example y_target tle_one = Inr (zeros6, unit_rows) \<and>
   fless (norm2 zeros6) default_new_tol \<and>
   newton_loop env_linear target_example default_new_tol 50 1 (Fin 1) y_target tle_one =
     Inr (1, norm2 zeros6, y_target, tle_one)"
proof -
  have i: "(1::int) < 50" by simp
  have guard: "fless default_new_tol (Fin 1)"
    by (simp add: default_new_tol_def)
  have small: "fless (norm2 zeros6) default_new_tol"
    by (simp add: norm2_zeros6 default_new_tol_def)
  show ?thesis
    using i guard small second_residual_linear
      convergence_return [OF i guard second_residual_linear small]
    by (simp add: second_correction_linear)
qed

text \<open>
  Claim C2. When \<^verbatim>\<open>max_iter\<close> passes through the body all end in the update, each
  entered with a norm above \<^verbatim>\<open>new_tol\<close>, the loop stops with the counter at
  \<^verbatim>\<open>max_iter\<close> and \<^verbatim>\<open>newton_method\<close> returns the last \<^verbatim>\<open>next_tle\<close> and \<^verbatim>\<open>y0\<close>
  as a value, not an error.
\<close>

theorem newton_method_exhaustion:
  assumes "0 \<le> max_iter"
    and "initial_guess E tle_0 tsince = Inr (y0, state_target, next_tle, tle_elements_0)"
    and "updates E state_target new_tol (nat max_iter) (0, Fin 1000000000, y0, next_tle) =
           Some (i', tol', y0', next_tle')"
    and "\<forall>k < nat max_iter. \<forall>st.
           updates E state_target new_tol k (0, Fin 1000000000, y0, next_tle) = Some st \<longrightarrow>
           fless new_tol (fst (snd st))"
  shows "newton_loop E state_target new_tol max_iter 0 (Fin 1000000000) y0 next_tle =
           Inr (max_iter, tol', y0', next_tle') \<and>
         newton_method E tle_0 tsince new_tol max_iter = Inr (next_tle', y0')"
proof -
  have "max_iter = 0 + int (nat max_iter)"
    using assms(1) by simp
  from newton_loop_exhausts [OF assms(3) assms(4) this]
  have loop: "newton_loop E state_target new_tol max_iter 0 (Fin 1000000000) y0 next_tle =
      Inr (i', tol', y0', next_tle')" and "i' = max_iter"
    by simp_all
  then show ?thesis
    using assms(2) by (simp add: newton_method_def)
qed

theorem newton_method_exhaustion_witness:
  "(0::int) \<le> 1 \<and>
   initial_guess env_linear tle_example (Fin 0) =
     Inr (y_init, target_example, tle_example, tle_example) \<and>
   updates env_linear target_example default_new_tol (nat 1)
       (0, Fin 1000000000, y_init, tle_example) = Some (1, Fin 1, y_target, tle_one) \<and>
   fless default_new_tol (Fin 1000000000) \<and>
   newton_method env_linear tle_example (Fin 0) default_new_tol 1 = Inr (tle_one, y_target)"
proof -
  have m: "(0::int) \<le> 1" by simp
  have upd: "updates env_linear target_example default_new_tol (nat 1)
      (0, Fin 1000000000, y_init, tle_example) = Some (1, Fin 1, y_target, tle_one)"
    using updates_one_linear by simp
  have big: "fless default_new_tol (Fin 1000000000)"
    by (simp add: default_new_tol_def)
  have guards: "\<forall>k < nat 1. \<forall>st.
      updates env_linear target_example default_new_tol k
        (0, Fin 1000000000, y_init, tle_example) = Some st \<longrightarrow>
      fless default_new_tol (fst (snd st))"
    using big by auto
  show ?thesis
    using m upd big initial_guess_linear
      newton_method_exhaustion [OF m initial_guess_linear upd guards]
    by simp
qed

text \<open>
  Claim C3. In every iteration on a ten-component \<^verbatim>\<open>y0\<close>, with gradients of the
  shape of the vector, the six rows stacked on line 169 are the gradients of the six
  entries, each of ten components, and the matrix \<open>DF\<close> that lines 171 to 173 go on
  with, the one whose normal-equation matrix is inverted and from which the correction
  of the iteration is computed, has six rows of six entries, its column \<open>c\<close> being the
  column \<open>c + 3\<close> of the stacked matrix: the columns 0, 1, 2 and 9 are dropped, the
  slots 3 to 8 are kept.
\<close>

theorem iteration_reduces_jacobian:
  assumes grad_shape: "\<forall>c y t g. grad E c y t = Inr g \<longrightarrow> length g = length y"
    and len: "length y0 = 10"
    and res: "newton_residual E state_target y0 next_tle = Inr (F, gradients)"
  shows "\<exists>DF.
     map (\<lambda>c. grad E c y0 next_tle) [RX, RY, RZ, VX, VY, VZ] = map Inr gradients \<and>
     length gradients = 6 \<and> (\<forall>r<6. length (gradients ! r) = 10) \<and>
     length DF = 6 \<and>
     (\<forall>r<6. length (DF ! r) = 6 \<and> (\<forall>c<6. DF ! r ! c = gradients ! r ! (c + 3))) \<and>
     newton_correction E F gradients =
       ebind (linalg_inv E (matmul (transpose_m DF) DF)) (\<lambda>inv.
         Inr ([Fin 0, Fin 0, Fin 0] @ map fneg (matvec (matmul inv (transpose_m DF)) F) @
              [Fin 0])) \<and>
     newton_iteration E state_target new_tol y0 next_tle =
       ebind (linalg_inv E (matmul (transpose_m DF) DF)) (\<lambda>inv.
         let dY = [Fin 0, Fin 0, Fin 0] @
                  map fneg (matvec (matmul inv (transpose_m DF)) F) @ [Fin 0]
         in if fless (norm2 F) new_tol then Inr (Solution_found (norm2 F))
            else (let y0' = map (\<lambda>(el1, el2). fadd el1 el2) (zip y0 dY)
                  in ebind (update_TLE (tle_valid E) next_tle y0') (\<lambda>next_tle'.
                       Inr (Newton_update (norm2 F) y0' next_tle'))))"
proof -
  define DF where "DF = reduce_columns gradients"
  have grads: "map (\<lambda>c. grad E c y0 next_tle) [RX, RY, RZ, VX, VY, VZ] = map Inr gradients"
    using newton_residual_grads [OF res] .
  have G: "length gradients = 6" "\<forall>row \<in> set gradients. length row = 10"
    using newton_residual_gradients [OF res grad_shape] len by simp_all
  have rows: "\<forall>r<6. length (gradients ! r) = 10"
    using G by simp
  have ne: "gradients \<noteq> []" using G(1) by auto
  have stack: "np_stack gradients = Inr gradients"
    using np_stack_uniform [OF ne G(2)] .
  have lenDF: "length DF = 6"
    using G(1) by (simp add: DF_def length_reduce_columns)
  have rowlen: "\<forall>r<6. length (DF ! r) = 6"
    using G(1) rows by (simp add: DF_def reduce_columns_row)
  have entries: "\<forall>r<6. \<forall>c<6. DF ! r ! c = gradients ! r ! (c + 3)"
    using G(1) rows by (simp add: DF_def reduce_columns_entry)
  have ent: "\<forall>r<6. length (DF ! r) = 6 \<and> (\<forall>c<6. DF ! r ! c = gradients ! r ! (c + 3))"
    using rowlen entries by blast
  have corr: "newton_correction E F gradients =
       ebind (linalg_inv E (matmul (transpose_m DF) DF)) (\<lambda>inv.
         Inr ([Fin 0, Fin 0, Fin 0] @ map fneg (matvec (matmul inv (transpose_m DF)) F) @
              [Fin 0]))"
    unfolding newton_correction_def stack by (simp add: Let_def DF_def)
  have iter: "newton_iteration E state_target new_tol y0 next_tle =
       ebind (linalg_inv E (matmul (transpose_m DF) DF)) (\<lambda>inv.
         let dY = [Fin 0, Fin 0, Fin 0] @
                  map fneg (matvec (matmul inv (transpose_m DF)) F) @ [Fin 0]
         in if fless (norm2 F) new_tol then Inr (Solution_found (norm2 F))
            else (let y0' = map (\<lambda>(el1, el2). fadd el1 el2) (zip y0 dY)
                  in ebind (update_TLE (tle_valid E) next_tle y0') (\<lambda>next_tle'.
                       Inr (Newton_update (norm2 F) y0' next_tle'))))"
    by (cases "linalg_inv E (matmul (transpose_m DF) DF)")
      (simp_all add: newton_iteration_def res corr Let_def)
  show ?thesis
    using grads G(1) rows lenDF ent corr iter by blast
qed

theorem iteration_reduces_jacobian_witness:
  "length y_init = 10 \<and>
   newton_residual env_linear target_example y_init tle_example = Inr (e1, unit_rows) \<and>
   grad env_linear VZ y_init tle_example = Inr (unit_rows ! 5) \<and>
   unit_rows ! 5 ! 8 = Fin 1 \<and> unit_rows ! 5 ! 5 = Fin 0 \<and>
   (\<exists>DF. length DF = 6 \<and> length (DF ! 5) = 6 \<and> DF ! 5 ! 5 = Fin 1 \<and> DF ! 5 ! 2 = Fin 0 \<and>
      newton_correction env_linear e1 unit_rows =
        ebind (linalg_inv env_linear (matmul (transpose_m DF) DF)) (\<lambda>inv.
          Inr ([Fin 0, Fin 0, Fin 0] @ map fneg (matvec (matmul inv (transpose_m DF)) e1) @
               [Fin 0])))"
proof -
  have len: "length y_init = 10"
    by (simp add: y_init_def)
  have res: "newton_residual env_linear target_example y_init tle_example = Inr (e1, unit_rows)"
    unfolding y_init_def by (simp add: residual_linear e1_def)
  have vz: "grad env_linear VZ y_init tle_example = Inr (unit_rows ! 5)"
    by (simp add: env_linear_def y_init_def unit_rows_def)
  have vals: "unit_rows ! 5 ! 8 = Fin 1" "unit_rows ! 5 ! 5 = Fin 0"
    by (simp_all add: unit_rows_def unit_row_values)
  obtain DF where DF: "length DF = 6"
    and ent: "\<forall>r<6. length (DF ! r) = 6 \<and> (\<forall>c<6. DF ! r ! c = unit_rows ! r ! (c + 3))"
    and corr: "newton_correction env_linear e1 unit_rows =
        ebind (linalg_inv env_linear (matmul (transpose_m DF) DF)) (\<lambda>inv.
          Inr ([Fin 0, Fin 0, Fin 0] @ map fneg (matvec (matmul inv (transpose_m DF)) e1) @
               [Fin 0]))"
    using iteration_reduces_jacobian [OF env_linear_shapes(1) len res, of default_new_tol]
    by blast
  have "length (DF ! 5) = 6" "DF ! 5 ! 5 = unit_rows ! 5 ! (5 + 3)"
    "DF ! 5 ! 2 = unit_rows ! 5 ! (2 + 3)"
    using ent by simp_all
  then have "length (DF ! 5) = 6 \<and> DF ! 5 ! 5 = Fin 1 \<and> DF ! 5 ! 2 = Fin 0"
    using vals by simp
  then show ?thesis
    using len res vz vals DF corr by blast
qed

text \<open>
  Claim C5. With gradients of the shape of the vector and an inverse of the shape of its
  argument, the padded correction of every iteration on a ten-component \<^verbatim>\<open>y0\<close> has
  ten components and is zero in the slots 0, 1, 2 and 9; so after any number of
  updates, and in the result of \<^verbatim>\<open>newton_method\<close>, the slot 9 is the zero of the
  initial guess and the slots 0 to 2 are those of the initial guess.
\<close>

theorem zero_padding_invariant:
  assumes grad_shape: "\<forall>c y t g. grad E c y t = Inr g \<longrightarrow> length g = length y"
    and inv_shape: "\<forall>A B. linalg_inv E A = Inr B \<longrightarrow> length B = length A"
  shows "(\<forall>y0 next_tle F gradients dY. length y0 = 10 \<longrightarrow>
            newton_residual E state_target y0 next_tle = Inr (F, gradients) \<longrightarrow>
            newton_correction E F gradients = Inr dY \<longrightarrow>
            length dY = 10 \<and> dY ! 0 = Fin 0 \<and> dY ! 1 = Fin 0 \<and> dY ! 2 = Fin 0 \<and>
            dY ! 9 = Fin 0) \<and>
         (\<forall>y_init target tle_init elems k i tol y next_tle.
            initial_guess E tle_0 tsince = Inr (y_init, target, tle_init, elems) \<longrightarrow>
            updates E target new_tol k (0, Fin 1000000000, y_init, tle_init) =
              Some (i, tol, y, next_tle) \<longrightarrow>
            length y = 10 \<and> y ! 9 = Fin 0 \<and> y ! 0 = y_init ! 0 \<and> y ! 1 = y_init ! 1 \<and>
            y ! 2 = y_init ! 2) \<and>
         (\<forall>y_init target tle_init elems tle_final y_final.
            initial_guess E tle_0 tsince = Inr (y_init, target, tle_init, elems) \<longrightarrow>
            newton_method E tle_0 tsince new_tol max_iter = Inr (tle_final, y_final) \<longrightarrow>
            length y_final = 10 \<and> y_final ! 9 = Fin 0 \<and> y_final ! 0 = y_init ! 0 \<and>
            y_final ! 1 = y_init ! 1 \<and> y_final ! 2 = y_init ! 2)"
proof -
  have correction: "\<forall>y0 next_tle F gradients dY. length y0 = 10 \<longrightarrow>
      newton_residual E state_target y0 next_tle = Inr (F, gradients) \<longrightarrow>
      newton_correction E F gradients = Inr dY \<longrightarrow>
      length dY = 10 \<and> dY ! 0 = Fin 0 \<and> dY ! 1 = Fin 0 \<and> dY ! 2 = Fin 0 \<and> dY ! 9 = Fin 0"
  proof (intro allI impI)
    fix y0 next_tle F gradients dY
    assume len: "length y0 = 10"
      and res: "newton_residual E state_target y0 next_tle = Inr (F, gradients)"
      and corr: "newton_correction E F gradients = Inr dY"
    have G: "length gradients = 6" "\<forall>row \<in> set gradients. length row = 10"
      using newton_residual_gradients [OF res grad_shape] len by simp_all
    show "length dY = 10 \<and> dY ! 0 = Fin 0 \<and> dY ! 1 = Fin 0 \<and> dY ! 2 = Fin 0 \<and> dY ! 9 = Fin 0"
      using newton_correction_padding [OF G inv_shape corr] .
  qed
  have trajectory: "\<forall>y_init target tle_init elems k i tol y next_tle.
      initial_guess E tle_0 tsince = Inr (y_init, target, tle_init, elems) \<longrightarrow>
      updates E target new_tol k (0, Fin 1000000000, y_init, tle_init) =
        Some (i, tol, y, next_tle) \<longrightarrow>
      length y = 10 \<and> y ! 9 = Fin 0 \<and> y ! 0 = y_init ! 0 \<and> y ! 1 = y_init ! 1 \<and>
      y ! 2 = y_init ! 2"
  proof (intro allI impI)
    fix y_init target tle_init elems k i tol y next_tle
    assume init: "initial_guess E tle_0 tsince = Inr (y_init, target, tle_init, elems)"
      and upd: "updates E target new_tol k (0, Fin 1000000000, y_init, tle_init) =
        Some (i, tol, y, next_tle)"
    have y_init: "length y_init = 10" "y_init ! 9 = Fin 0"
      using initial_guess_vector [OF init] by simp_all
    show "length y = 10 \<and> y ! 9 = Fin 0 \<and> y ! 0 = y_init ! 0 \<and> y ! 1 = y_init ! 1 \<and>
        y ! 2 = y_init ! 2"
      using updates_slots [OF grad_shape inv_shape y_init(1) upd] y_init(2) by simp
  qed
  have final: "\<forall>y_init target tle_init elems tle_final y_final.
      initial_guess E tle_0 tsince = Inr (y_init, target, tle_init, elems) \<longrightarrow>
      newton_method E tle_0 tsince new_tol max_iter = Inr (tle_final, y_final) \<longrightarrow>
      length y_final = 10 \<and> y_final ! 9 = Fin 0 \<and> y_final ! 0 = y_init ! 0 \<and>
      y_final ! 1 = y_init ! 1 \<and> y_final ! 2 = y_init ! 2"
  proof (intro allI impI)
    fix y_init target tle_init elems tle_final y_final
    assume init: "initial_guess E tle_0 tsince = Inr (y_init, target, tle_init, elems)"
      and res: "newton_method E tle_0 tsince new_tol max_iter = Inr (tle_final, y_final)"
    have y_init: "length y_init = 10" "y_init ! 9 = Fin 0"
      using initial_guess_vector [OF init] by simp_all
    obtain i tol where loop:
      "newton_loop E target new_tol max_iter 0 (Fin 1000000000) y_init tle_init =
        Inr (i, tol, y_final, tle_final)"
      using res init by (auto simp: newton_method_def ebind_def split: sum.splits)
    show "length y_final = 10 \<and> y_final ! 9 = Fin 0 \<and> y_final ! 0 = y_init ! 0 \<and>
        y_final ! 1 = y_init ! 1 \<and> y_final ! 2 = y_init ! 2"
      using newton_loop_slots [OF grad_shape inv_shape y_init(1) loop] y_init(2) by simp
  qed
  from correction trajectory final show ?thesis
    by (rule conjI [OF _ conjI])
qed

theorem zero_padding_invariant_witness:
  "initial_guess env_linear tle_example (Fin 0) =
     Inr (y_init, target_example, tle_example, tle_example) \<and>
   newton_method env_linear tle_example (Fin 0) default_new_tol 50 = Inr (tle_one, y_target) \<and>
   length y_target = 10 \<and> y_target ! 9 = Fin 0 \<and> y_target ! 0 = y_init ! 0 \<and>
   y_target ! 1 = y_init ! 1 \<and> y_target ! 2 = y_init ! 2 \<and> y_target ! 3 \<noteq> y_init ! 3"
proof -
  have moved: "y_target ! 3 \<noteq> y_init ! 3"
    by (simp add: y_target_def y_init_def)
  have "length y_target = 10 \<and> y_target ! 9 = Fin 0 \<and> y_target ! 0 = y_init ! 0 \<and>
      y_target ! 1 = y_init ! 1 \<and> y_target ! 2 = y_init ! 2"
    using zero_padding_invariant [OF env_linear_shapes, of target_example tle_example "Fin 0"
        default_new_tol 50]
      initial_guess_linear method_linear
    by blast
  then show ?thesis
    using initial_guess_linear method_linear moved by blast
qed

text \<open>
  Claim C7, as stated, fails: the norm is initialised to \<^verbatim>\<open>1e9\<close>, not to infinity.
  With the finite tolerance \<^verbatim>\<open>1e9\<close> and \<^verbatim>\<open>max_iter = 1\<close> the guard of line 139 is
  false at once: the body, which would raise here, is not entered, and the initial
  guess is returned.
\<close>

theorem first_iteration_counterexample:
  "is_finite (Fin 1000000000) \<and> (1::int) \<le> 1 \<and>
   initial_guess env_failing tle_example (Fin 0) =
     Inr (y_init, target_example, tle_example, tle_example) \<and>
   newton_iteration env_failing target_example (Fin 1000000000) y_init tle_example =
     Inl PropagationError \<and>
   newton_loop env_failing target_example (Fin 1000000000) 1 0 (Fin 1000000000) y_init
       tle_example = Inr (0, Fin 1000000000, y_init, tle_example) \<and>
   newton_method env_failing tle_example (Fin 0) (Fin 1000000000) 1 = Inr (tle_example, y_init)"
proof -
  have it: "newton_iteration env_failing target_example (Fin 1000000000) y_init tle_example =
      Inl PropagationError"
    by (simp add: newton_iteration_def newton_residual_def value_and_grad_def env_failing_def
        Let_def)
  have loop: "newton_loop env_failing target_example (Fin 1000000000) 1 0 (Fin 1000000000)
      y_init tle_example = Inr (0, Fin 1000000000, y_init, tle_example)"
    by (rule newton_loop_stop) simp
  have "newton_method env_failing tle_example (Fin 0) (Fin 1000000000) 1 =
      Inr (tle_example, y_init)"
    by (simp add: newton_method_def initial_guess_failing loop)
  then show ?thesis
    using it loop initial_guess_failing by (simp add: is_finite_def)
qed

text \<open>
  Claim C7, amended. The norm is initialised to \<^verbatim>\<open>1e9\<close>: for every tolerance
  \<^verbatim>\<open>new_tol\<close> below \<^verbatim>\<open>1e9\<close> and every \<^verbatim>\<open>max_iter\<close> of at least 1, the body of the
  loop is entered at least once, so the result of \<^verbatim>\<open>newton_method\<close> is that of the
  first pass followed by the rest of the loop.
\<close>

theorem first_iteration_entered:
  assumes "1 \<le> max_iter" and "fless new_tol (Fin 1000000000)"
    and "initial_guess E tle_0 tsince = Inr (y0, state_target, next_tle, tle_elements_0)"
  shows "newton_method E tle_0 tsince new_tol max_iter =
     (case newton_iteration E state_target new_tol y0 next_tle of
        Inl e \<Rightarrow> Inl e
      | Inr (Solution_found tol') \<Rightarrow> Inr (next_tle, y0)
      | Inr (Newton_update tol' y0' next_tle') \<Rightarrow>
          ebind (newton_loop E state_target new_tol max_iter 1 tol' y0' next_tle')
            (\<lambda>(i, tol, y0, next_tle). Inr (next_tle, y0)))"
proof -
  have guard: "(0::int) < max_iter" using assms(1) by simp
  show ?thesis
    using assms(3)
    by (simp add: newton_method_def newton_loop_step [OF guard assms(2)]
        split: sum.splits iteration.splits)
qed

theorem first_iteration_entered_witness:
  "(1::int) \<le> 1 \<and> fless default_new_tol (Fin 1000000000) \<and>
   initial_guess env_linear tle_example (Fin 0) =
     Inr (y_init, target_example, tle_example, tle_example) \<and>
   newton_method env_linear tle_example (Fin 0) default_new_tol 1 = Inr (tle_one, y_target)"
proof -
  have m: "(1::int) \<le> 1" by simp
  have big: "fless default_new_tol (Fin 1000000000)"
    by (simp add: default_new_tol_def)
  have stop: "newton_loop env_linear target_example default_new_tol 1 1 (Fin 1) y_target
      tle_one = Inr (1, Fin 1, y_target, tle_one)"
    by (rule newton_loop_stop) simp
  show ?thesis
    using m big initial_guess_linear first_iteration_entered [OF m big initial_guess_linear]
    by (simp add: first_iteration_linear stop)
qed

end
